theory Spec2Isabelle
  imports Main "HOL-Library.Word" "HOL-Library.AList" "HOL-Library.Char_ord"
    "HOL-Library.List_Lexorder" "HOL-Library.Multiset"
begin

unbundle bit_operations_syntax

section \<open>Errors\<close>

text \<open>
  Go error values, as far as the packages \<open>retryable\<close>, \<open>reference\<close> and \<open>updater\<close>
  build and inspect them. \<open>StatusError\<close> is the API machinery's status error with its
  reason, \<open>notRegisteredErr\<close> the scheme's "no kind is registered" error,
  \<open>errorString\<close> an error made by \<open>fmt.Errorf\<close> without \<open>%w\<close>, \<open>wrapError\<close> one made
  by \<open>fmt.Errorf("...: %w", err)\<close>, and \<open>retryableError\<close> the struct of package
  \<open>retryable\<close> that embeds an error.
\<close>

datatype StatusReason =
    StatusReasonNotFound
  | StatusReasonAlreadyExists
  | StatusReasonConflict
  | StatusReasonForbidden
  | StatusReasonInternalError

datatype error =
    StatusError StatusReason
  | notRegisteredErr
  | errorString string
  | wrapError string error
  | retryableError error

text \<open>
  \<open>apierrors.IsNotFound\<close> looks for a status error along the \<open>Unwrap\<close> chain
  (\<open>errors.As\<close>); \<open>retryableError\<close> has no \<open>Unwrap\<close> method, so the search stops there.
\<close>

fun IsNotFound :: "error \<Rightarrow> bool" where
  "IsNotFound (StatusError r) = (r = StatusReasonNotFound)"
| "IsNotFound (wrapError msg e) = IsNotFound e"
| "IsNotFound notRegisteredErr = False"
| "IsNotFound (errorString msg) = False"
| "IsNotFound (retryableError e) = False"

text \<open>\<open>runtime.IsNotRegisteredError\<close> is a type assertion on the error itself.\<close>

fun IsNotRegisteredError :: "error \<Rightarrow> bool" where
  "IsNotRegisteredError notRegisteredErr = True"
| "IsNotRegisteredError e = False"

subsection \<open>Package retryable\<close>

definition Retryable :: "error \<Rightarrow> error" where
  "Retryable err = retryableError err"


section \<open>Package reference\<close>

text \<open>
  The content of a Kubernetes object as \<open>Resolve\<close> sees it: type identity, key and an
  uninterpreted payload. A \<open>runtime.Object\<close> is that content under a Go dynamic type:
  \<open>*unstructured.Unstructured\<close>, \<open>*corev1.Secret\<close>, \<open>*corev1.ConfigMap\<close>, another
  concrete type (named), or a value without object metadata.
\<close>

record ObjectData =
  apiVersion :: string
  kind :: string
  name :: string
  namespace :: string
  payload :: string

datatype RuntimeObject =
    Unstructured ObjectData
  | Secret ObjectData
  | ConfigMap ObjectData
  | Typed string ObjectData
  | NoMeta string

record GroupVersionKind =
  Group :: string
  Version :: string
  Kind :: string

record ObjectKey =
  Namespace :: string
  Name :: string

text \<open>\<open>gvk.GroupVersion().String()\<close>: the version alone for the core group.\<close>

definition GroupVersionString :: "GroupVersionKind \<Rightarrow> string" where
  "GroupVersionString gvk =
     (if Group gvk = [] then Version gvk else Group gvk @ ''/'' @ Version gvk)"

text \<open>\<open>meta.Accessor\<close>: fails on a value that carries no object metadata.\<close>

fun Accessor :: "RuntimeObject \<Rightarrow> error + ObjectData" where
  "Accessor (Unstructured d) = Inr d"
| "Accessor (Secret d) = Inr d"
| "Accessor (ConfigMap d) = Inr d"
| "Accessor (Typed t d) = Inr d"
| "Accessor (NoMeta t) = Inl (errorString ''object does not implement the Object interfaces'')"

text \<open>
  The collaborators of \<open>Resolve\<close>, taken as parameters: the scheme (kinds of a Go value,
  the universal deserializer built from it), the reader's \<open>Get\<close> into an unstructured
  object that already carries apiVersion and kind, and the JSON encoding of an
  unstructured object.
\<close>

record Scheme =
  ObjectKinds :: "RuntimeObject \<Rightarrow> error + GroupVersionKind list"
  Decode :: "string \<Rightarrow> error + RuntimeObject"

record Reader =
  Get :: "ObjectKey \<Rightarrow> ObjectData \<Rightarrow> error + ObjectData"
  MarshalJSON :: "ObjectData \<Rightarrow> error + string"

record ObjectReference =
  refName :: string
  refNamespace :: string
  refAPIVersion :: string
  refKind :: string

text \<open>
  The result of \<open>Resolve\<close> together with the reads it issued: each entry is the key and
  the unstructured object (apiVersion and kind set) handed to \<open>reader.Get\<close>.
\<close>

type_synonym Fetch = "ObjectKey \<times> ObjectData"

definition emptyUnstructured :: ObjectData where
  "emptyUnstructured = \<lparr>apiVersion = [], kind = [], name = [], namespace = [], payload = []\<rparr>"

text \<open>
  \<open>(*ObjectReference).Resolve\<close>, in the order of the source: effective apiVersion,
  effective namespace, fetch, encode, decode. Every early return of the source is a
  branch; before the fetch no read has been issued.
\<close>

definition Resolve ::
  "ObjectReference \<Rightarrow> Reader \<Rightarrow> Scheme \<Rightarrow> RuntimeObject \<Rightarrow> (error + RuntimeObject) \<times> Fetch list" where
  "Resolve ref reader scheme parent =
     (case (if refAPIVersion ref = [] then
              (case ObjectKinds scheme parent of
                 Inl err \<Rightarrow> Inl (wrapError ''failed to get object kinds'' err)
               | Inr gvks \<Rightarrow>
                   (case gvks of
                      [] \<Rightarrow> Inl (errorString ''no object kinds found'')
                    | gvk # rest \<Rightarrow> Inr (GroupVersionString gvk)))
            else Inr (refAPIVersion ref)) of
        Inl err \<Rightarrow> (Inl err, [])
      | Inr apiVersion' \<Rightarrow>
          (let u = emptyUnstructured\<lparr>apiVersion := apiVersion', kind := refKind ref\<rparr> in
           case (if refNamespace ref = [] then
                   (case Accessor parent of
                      Inl err \<Rightarrow> Inl (wrapError ''failed to get accessor'' err)
                    | Inr parentMeta \<Rightarrow> Inr (namespace parentMeta))
                 else Inr (refNamespace ref)) of
             Inl err \<Rightarrow> (Inl err, [])
           | Inr namespace' \<Rightarrow>
               (let key = \<lparr>Namespace = namespace', Name = refName ref\<rparr> in
                case Get reader key u of
                  Inl err \<Rightarrow>
                    (if IsNotFound err then (Inl (Retryable err), [(key, u)])
                     else (Inl (wrapError ''failed to resolve reference'' err), [(key, u)]))
                | Inr u' \<Rightarrow>
                    (case MarshalJSON reader u' of
                       Inl err \<Rightarrow>
                         (Inl (wrapError ''failed to marshal unstructured object'' err), [(key, u)])
                     | Inr unstructuredBytes \<Rightarrow>
                         (case Decode scheme unstructuredBytes of
                            Inl err \<Rightarrow>
                              (if IsNotRegisteredError err then (Inr (Unstructured u'), [(key, u)])
                               else (Inl (wrapError ''failed to decode unstructured object'' err),
                                     [(key, u)]))
                          | Inr obj \<Rightarrow> (Inr obj, [(key, u)]))))))"

text \<open>A Go call either returns or panics (a failed type assertion).\<close>

datatype 'a outcome = Returned 'a | Panicked string

record LocalObjectReference =
  localName :: string
  localAPIVersion :: string
  localKind :: string

definition LocalObjectReference_Resolve ::
  "LocalObjectReference \<Rightarrow> Reader \<Rightarrow> Scheme \<Rightarrow> RuntimeObject \<Rightarrow> (error + RuntimeObject) \<times> Fetch list" where
  "LocalObjectReference_Resolve ref reader scheme parent =
     Resolve \<lparr>refName = localName ref, refNamespace = [], refAPIVersion = localAPIVersion ref,
              refKind = localKind ref\<rparr> reader scheme parent"

text \<open>
  \<open>(*LocalSecretReference).Resolve\<close> and \<open>(*LocalConfigMapReference).Resolve\<close>: the
  reference is only a name; the result of the general resolver is narrowed by the
  one-result type assertions \<open>secret.(*corev1.Secret)\<close> and
  \<open>configMap.(*corev1.ConfigMap)\<close>, which panic on any other dynamic type.
\<close>

definition LocalSecretReference_Resolve ::
  "string \<Rightarrow> Reader \<Rightarrow> Scheme \<Rightarrow> RuntimeObject \<Rightarrow> (error + RuntimeObject) outcome" where
  "LocalSecretReference_Resolve secretName reader scheme parent =
     (case fst (Resolve \<lparr>refName = secretName, refNamespace = [], refAPIVersion = ''v1'',
                         refKind = ''Secret''\<rparr> reader scheme parent) of
        Inl err \<Rightarrow> Returned (Inl err)
      | Inr (Secret d) \<Rightarrow> Returned (Inr (Secret d))
      | Inr other \<Rightarrow> Panicked ''interface conversion: runtime.Object is not *v1.Secret'')"

definition LocalConfigMapReference_Resolve ::
  "string \<Rightarrow> Reader \<Rightarrow> Scheme \<Rightarrow> RuntimeObject \<Rightarrow> (error + RuntimeObject) outcome" where
  "LocalConfigMapReference_Resolve configMapName reader scheme parent =
     (case fst (Resolve \<lparr>refName = configMapName, refNamespace = [], refAPIVersion = ''v1'',
                         refKind = ''ConfigMap''\<rparr> reader scheme parent) of
        Inl err \<Rightarrow> Returned (Inl err)
      | Inr (ConfigMap d) \<Rightarrow> Returned (Inr (ConfigMap d))
      | Inr other \<Rightarrow> Panicked ''interface conversion: runtime.Object is not *v1.ConfigMap'')"

subsection \<open>The fixture of \<open>reference_test.go\<close>\<close>

text \<open>
  \<open>TestResolveReference\<close>: the store holds the custom object \<open>first\<close> and the secret
  \<open>demo\<close>, both in namespace \<open>default\<close>; the scheme handed to \<open>Resolve\<close> registers
  \<open>MyObject\<close> of \<open>example.com/v1\<close> only ("Intentionally don't register the secret
  type"); the parent is the \<open>MyObject\<close> named \<open>second\<close>. The wire encoding of the
  fixture joins the fields with semicolons.
\<close>

definition testEncode :: "ObjectData \<Rightarrow> string" where
  "testEncode d =
     apiVersion d @ '';'' @ kind d @ '';'' @ namespace d @ '';'' @ name d @ '';'' @ payload d"

definition myObjectFirst :: ObjectData where
  "myObjectFirst = \<lparr>apiVersion = ''example.com/v1'', kind = ''MyObject'', name = ''first'',
                     namespace = ''default'', payload = []\<rparr>"

definition secretDemo :: ObjectData where
  "secretDemo = \<lparr>apiVersion = ''v1'', kind = ''Secret'', name = ''demo'',
                  namespace = ''default'', payload = ''secret=change-me''\<rparr>"

definition testReader :: Reader where
  "testReader =
     \<lparr>Get = (\<lambda>key u.
        if key = \<lparr>Namespace = ''default'', Name = ''first''\<rparr>
           \<and> apiVersion u = ''example.com/v1'' \<and> kind u = ''MyObject'' then Inr myObjectFirst
        else if key = \<lparr>Namespace = ''default'', Name = ''demo''\<rparr>
           \<and> apiVersion u = ''v1'' \<and> kind u = ''Secret'' then Inr secretDemo
        else Inl (StatusError StatusReasonNotFound)),
      MarshalJSON = (\<lambda>d. Inr (testEncode d))\<rparr>"

definition testScheme :: Scheme where
  "testScheme =
     \<lparr>ObjectKinds = (\<lambda>obj. case obj of
          Typed t d \<Rightarrow>
            (if t = ''MyObject''
             then Inr [\<lparr>Group = ''example.com'', Version = ''v1'', Kind = ''MyObject''\<rparr>]
             else Inl notRegisteredErr)
        | other \<Rightarrow> Inl notRegisteredErr),
      Decode = (\<lambda>bytes.
        if bytes = testEncode myObjectFirst then Inr (Typed ''MyObject'' myObjectFirst)
        else Inl notRegisteredErr)\<rparr>"

definition testParent :: RuntimeObject where
  "testParent = Typed ''MyObject'' \<lparr>apiVersion = [], kind = [], name = ''second'',
                                   namespace = ''default'', payload = []\<rparr>"

text \<open>
  The same store with a config map \<open>settings\<close> beside the secret, for the two
  fixed-kind references.
\<close>

definition configMapSettings :: ObjectData where
  "configMapSettings = \<lparr>apiVersion = ''v1'', kind = ''ConfigMap'', name = ''settings'',
                         namespace = ''default'', payload = ''mode=fast''\<rparr>"

definition testReaderWithConfigMap :: Reader where
  "testReaderWithConfigMap =
     \<lparr>Get = (\<lambda>key u.
        if key = \<lparr>Namespace = ''default'', Name = ''settings''\<rparr>
           \<and> apiVersion u = ''v1'' \<and> kind u = ''ConfigMap'' then Inr configMapSettings
        else Get testReader key u),
      MarshalJSON = MarshalJSON testReader\<rparr>"

subsection \<open>The defaulting rules as the specification words them\<close>



section \<open>Package updater\<close>

subsection \<open>Objects and the Go heap\<close>

text \<open>
  A \<open>client.Object\<close> as the updater sees it: key, the store-assigned version token,
  the annotations and the type-specific content. The annotations are a Go map, that
  is a reference: \<open>None\<close> is the nil map, \<open>Some a\<close> points at a map allocated in the
  heap, so that two objects may share one map. The heap allocates by a counter.
\<close>

type_synonym addr = nat

type_synonym annotations = "(string \<times> string) list"

record Heap =
  cells :: "addr \<Rightarrow> annotations option"
  nextAddr :: addr

record Object =
  objName :: string
  objNamespace :: string
  objResourceVersion :: string
  objAnnotations :: "addr option"
  objSpec :: string
  objStatus :: string

definition GetAnnotations :: "Heap \<Rightarrow> Object \<Rightarrow> annotations option" where
  "GetAnnotations h obj = (case objAnnotations obj of None \<Rightarrow> None | Some a \<Rightarrow> cells h a)"

definition ObjectKeyFromObject :: "Object \<Rightarrow> ObjectKey" where
  "ObjectKeyFromObject obj = \<lparr>Namespace = objNamespace obj, Name = objName obj\<rparr>"

text \<open>
  \<open>DeepCopyObject\<close> of a generated type: the struct is copied and a non-nil annotation
  map is copied into a newly made map. The assertion of the result to \<open>client.Object\<close>
  cannot fail on this type.
\<close>

definition DeepCopyObject :: "Heap \<Rightarrow> Object \<Rightarrow> Object \<times> Heap" where
  "DeepCopyObject h obj =
     (case objAnnotations obj of
        None \<Rightarrow> (obj, h)
      | Some a \<Rightarrow>
          (obj\<lparr>objAnnotations := Some (nextAddr h)\<rparr>,
           h\<lparr>cells := (cells h)(nextAddr h := cells h a), nextAddr := Suc (nextAddr h)\<rparr>))"

subsection \<open>hash.go\<close>

definition AnnotationKey :: string where
  "AnnotationKey = ''gpu-ninja.com/template-hash''"

text \<open>
  \<open>GetHash\<close> and \<open>StoreHash\<close>. Their error result comes from \<open>meta.Accessor\<close> alone,
  which cannot fail on a \<open>client.Object\<close>; it is nil on every path and left out.
  Reading a missing key of a Go map, or any key of the nil map, gives the empty string.
  \<open>StoreHash\<close> writes into the map the object refers to, and makes a map when there is none.
\<close>

definition GetHash :: "Heap \<Rightarrow> Object \<Rightarrow> string" where
  "GetHash h obj =
     (case GetAnnotations h obj of
        None \<Rightarrow> []
      | Some annotations \<Rightarrow>
          (case map_of annotations AnnotationKey of None \<Rightarrow> [] | Some v \<Rightarrow> v))"

definition StoreHash :: "Heap \<Rightarrow> Object \<Rightarrow> string \<Rightarrow> Object \<times> Heap" where
  "StoreHash h obj hash =
     (case objAnnotations obj of
        None \<Rightarrow>
          (obj\<lparr>objAnnotations := Some (nextAddr h)\<rparr>,
           h\<lparr>cells := (cells h)(nextAddr h \<mapsto> [(AnnotationKey, hash)]),
             nextAddr := Suc (nextAddr h)\<rparr>)
      | Some a \<Rightarrow>
          (obj,
           h\<lparr>cells := (cells h)(a \<mapsto>
                AList.update AnnotationKey hash (case cells h a of None \<Rightarrow> [] | Some m \<Rightarrow> m))\<rparr>))"

text \<open>
  \<open>dump.ForHash\<close> belongs to the API machinery: it prints the value with every field
  and its type, follows pointers without printing addresses, and prints a map with its
  keys sorted. Here it prints the fields of \<open>Object\<close>, none left out.
\<close>

definition dumpMap :: "annotations option \<Rightarrow> string" where
  "dumpMap m =
     (case m of
        None \<Rightarrow> ''(map[string]string)<nil>''
      | Some kvs \<Rightarrow>
          ''(map[string]string)map['' @
          concat (map (\<lambda>(k, v). k @ '':'' @ v @ '' '') (sort_key fst kvs)) @ '']'')"

definition ForHash :: "Heap \<Rightarrow> Object \<Rightarrow> string" where
  "ForHash h obj =
     ''(*Object){Name:(string)'' @ objName obj @
     '' Namespace:(string)'' @ objNamespace obj @
     '' ResourceVersion:(string)'' @ objResourceVersion obj @
     '' Annotations:'' @ dumpMap (GetAnnotations h obj) @
     '' Spec:(string)'' @ objSpec obj @
     '' Status:(string)'' @ objStatus obj @ ''}''"

text \<open>\<open>fnv.New32a\<close>, \<open>Sum(nil)\<close> (big endian) and \<open>hex.EncodeToString\<close>.\<close>

definition fnv32a :: "string \<Rightarrow> 32 word" where
  "fnv32a s = foldl (\<lambda>hash c. (hash XOR of_char c) * 16777619) 2166136261 s"

definition Sum32 :: "32 word \<Rightarrow> 8 word list" where
  "Sum32 v = [ucast (drop_bit 24 v), ucast (drop_bit 16 v), ucast (drop_bit 8 v), ucast v]"

definition hextable :: string where
  "hextable = ''0123456789abcdef''"

definition EncodeToString :: "8 word list \<Rightarrow> string" where
  "EncodeToString src =
     concat (map (\<lambda>v. [hextable ! unat (drop_bit 4 v), hextable ! unat (v AND 15)]) src)"

definition HashObject :: "Heap \<Rightarrow> Object \<Rightarrow> string" where
  "HashObject h obj = EncodeToString (Sum32 (fnv32a (ForHash h obj)))"

subsection \<open>The store client\<close>

text \<open>
  \<open>client.Client\<close> is a collaborator, taken as a parameter over the state \<open>'s\<close> of the
  remote store. A call takes the Go heap, the remote state and the object the caller
  points at; it returns the error, or the object as the call left it, with the heap and
  the remote state after the call. On an error the caller's object is as before.
  Every call made through the client is logged: a read with its key, a write with the
  object sent and the content of its annotation map at that moment.
\<close>

datatype Call =
    CallGet ObjectKey
  | CallCreate Object "annotations option"
  | CallUpdate Object "annotations option"
  | CallStatusUpdate Object "annotations option"

record 's Client =
  clientGet :: "Heap \<Rightarrow> 's \<Rightarrow> ObjectKey \<Rightarrow> Object \<Rightarrow> (error + Object) \<times> Heap \<times> 's"
  clientCreate :: "Heap \<Rightarrow> 's \<Rightarrow> Object \<Rightarrow> (error + Object) \<times> Heap \<times> 's"
  clientUpdate :: "Heap \<Rightarrow> 's \<Rightarrow> Object \<Rightarrow> (error + Object) \<times> Heap \<times> 's"
  clientStatusUpdate :: "Heap \<Rightarrow> 's \<Rightarrow> Object \<Rightarrow> (error + Object) \<times> Heap \<times> 's"

record 's World =
  heap :: Heap
  remote :: 's
  calls :: "Call list"

definition cGet :: "'s Client \<Rightarrow> 's World \<Rightarrow> ObjectKey \<Rightarrow> Object \<Rightarrow> (error + Object) \<times> 's World" where
  "cGet c w key obj =
     (case clientGet c (heap w) (remote w) key obj of
        (r, h', s') \<Rightarrow> (r, \<lparr>heap = h', remote = s', calls = calls w @ [CallGet key]\<rparr>))"

definition cCreate :: "'s Client \<Rightarrow> 's World \<Rightarrow> Object \<Rightarrow> (error + Object) \<times> 's World" where
  "cCreate c w obj =
     (case clientCreate c (heap w) (remote w) obj of
        (r, h', s') \<Rightarrow>
          (r, \<lparr>heap = h', remote = s',
               calls = calls w @ [CallCreate obj (GetAnnotations (heap w) obj)]\<rparr>))"

definition cUpdate :: "'s Client \<Rightarrow> 's World \<Rightarrow> Object \<Rightarrow> (error + Object) \<times> 's World" where
  "cUpdate c w obj =
     (case clientUpdate c (heap w) (remote w) obj of
        (r, h', s') \<Rightarrow>
          (r, \<lparr>heap = h', remote = s',
               calls = calls w @ [CallUpdate obj (GetAnnotations (heap w) obj)]\<rparr>))"


fun isWrite :: "Call \<Rightarrow> bool" where
  "isWrite (CallGet key) = False"
| "isWrite (CallCreate obj m) = True"
| "isWrite (CallUpdate obj m) = True"
| "isWrite (CallStatusUpdate obj m) = True"

fun isGet :: "Call \<Rightarrow> bool" where
  "isGet (CallGet key) = True"
| "isGet other = False"

subsection \<open>CreateOrUpdateFromTemplate\<close>

definition CreateOrUpdateFromTemplate ::
  "'s Client \<Rightarrow> 's World \<Rightarrow> Object \<Rightarrow> (error + Object) \<times> 's World" where
  "CreateOrUpdateFromTemplate c w template =
     (let templateHash = HashObject (heap w) template;
          (obj, h1) = DeepCopyObject (heap w) template;
          key = ObjectKeyFromObject obj
      in case cGet c (w\<lparr>heap := h1\<rparr>) key obj of
           (Inl err, w2) \<Rightarrow>
             (if \<not> IsNotFound err then (Inl (wrapError ''failed to get object'' err), w2)
              else
                (let (obj2, h3) = StoreHash (heap w2) obj templateHash in
                 case cCreate c (w2\<lparr>heap := h3\<rparr>) obj2 of
                   (Inl err, w4) \<Rightarrow> (Inl (wrapError ''failed to create object'' err), w4)
                 | (Inr obj3, w4) \<Rightarrow>
                     (case cGet c w4 key obj3 of
                        (Inl err, w5) \<Rightarrow>
                          (if \<not> IsNotFound err
                           then (Inl (wrapError ''failed to get object'' err), w5)
                           else (Inr obj3, w5))
                      | (Inr obj4, w5) \<Rightarrow> (Inr obj4, w5))))
         | (Inr obj1, w2) \<Rightarrow>
             (let existingHash = GetHash (heap w2) obj1 in
              if existingHash \<noteq> templateHash then
                (let (obj2, h3) = StoreHash (heap w2) obj1 templateHash in
                 case cUpdate c (w2\<lparr>heap := h3\<rparr>) obj2 of
                   (Inl err, w4) \<Rightarrow> (Inl (wrapError ''failed to update object'' err), w4)
                 | (Inr obj3, w4) \<Rightarrow>
                     (case cGet c w4 key obj3 of
                        (Inl err, w5) \<Rightarrow>
                          (if \<not> IsNotFound err
                           then (Inl (wrapError ''failed to get object'' err), w5)
                           else (Inr obj3, w5))
                      | (Inr obj4, w5) \<Rightarrow> (Inr obj4, w5)))
              else (Inr obj1, w2)))"

subsection \<open>CreateOrUpdate and UpdateStatus\<close>

text \<open>
  A \<open>MutateFunc\<close> is a closure over the caller's object: it may change the object and
  the heap and returns an error or nil. The operations return the error (nil is
  \<open>None\<close>) and leave the caller's object as the last step that touched it did.
\<close>

type_synonym MutateFunc = "Heap \<Rightarrow> Object \<Rightarrow> error option \<times> Object \<times> Heap"

definition CreateOrUpdate ::
  "'s Client \<Rightarrow> 's World \<Rightarrow> ObjectKey \<Rightarrow> Object \<Rightarrow> MutateFunc option \<Rightarrow> error option \<times> Object \<times> 's World" where
  "CreateOrUpdate c w key obj f =
     (case cGet c w key obj of
        (Inl err, w1) \<Rightarrow>
          (if \<not> IsNotFound err then (Some (wrapError ''failed to get object'' err), obj, w1)
           else
             (let obj1 = obj\<lparr>objName := Name key, objNamespace := Namespace key\<rparr> in
              case (case f of None \<Rightarrow> (None, obj1, heap w1) | Some g \<Rightarrow> g (heap w1) obj1) of
                (Some err, obj2, h2) \<Rightarrow>
                  (Some (wrapError ''failed to mutate object'' err), obj2, w1\<lparr>heap := h2\<rparr>)
              | (None, obj2, h2) \<Rightarrow>
                  (case cCreate c (w1\<lparr>heap := h2\<rparr>) obj2 of
                     (Inl err, w3) \<Rightarrow> (Some (wrapError ''failed to create object'' err), obj2, w3)
                   | (Inr obj3, w3) \<Rightarrow> (None, obj3, w3))))
      | (Inr obj1, w1) \<Rightarrow>
          (case (case f of None \<Rightarrow> (None, obj1, heap w1) | Some g \<Rightarrow> g (heap w1) obj1) of
             (Some err, obj2, h2) \<Rightarrow>
               (Some (wrapError ''failed to mutate object'' err), obj2, w1\<lparr>heap := h2\<rparr>)
           | (None, obj2, h2) \<Rightarrow>
               (case cUpdate c (w1\<lparr>heap := h2\<rparr>) obj2 of
                  (Inl err, w3) \<Rightarrow> (Some (wrapError ''failed to update object'' err), obj2, w3)
                | (Inr obj3, w3) \<Rightarrow>
                    (case cGet c w3 key obj3 of
                       (Inl err, w4) \<Rightarrow>
                         (if \<not> IsNotFound err
                          then (Some (wrapError ''failed to get updated object'' err), obj3, w4)
                          else (None, obj3, w4))
                     | (Inr obj4, w4) \<Rightarrow> (None, obj4, w4)))))"



subsection \<open>What is assumed of a store client\<close>

text \<open>
  A call of the client may allocate, and may write the map of the object handed to it;
  it leaves every other allocated map alone, and the object it hands back refers to the
  caller's map or to a newly allocated one.
\<close>

definition frameStep :: "Heap \<Rightarrow> Object \<Rightarrow> (error + Object) \<times> Heap \<times> 's \<Rightarrow> bool" where
  "frameStep h obj res =
     (case res of (r, h', s') \<Rightarrow>
        nextAddr h \<le> nextAddr h'
      \<and> (\<forall>a < nextAddr h. objAnnotations obj \<noteq> Some a \<longrightarrow> cells h' a = cells h a)
      \<and> (case r of
           Inl err \<Rightarrow> True
         | Inr obj' \<Rightarrow>
             (case objAnnotations obj' of
                None \<Rightarrow> True
              | Some a \<Rightarrow> objAnnotations obj = Some a \<or> nextAddr h \<le> a)))"

definition clientFrame :: "'s Client \<Rightarrow> bool" where
  "clientFrame c \<longleftrightarrow>
     (\<forall>h s key obj. frameStep h obj (clientGet c h s key obj))
   \<and> (\<forall>h s obj. frameStep h obj (clientCreate c h s obj))
   \<and> (\<forall>h s obj. frameStep h obj (clientUpdate c h s obj))"

text \<open>
  A store without external change reads back what was written: \<open>holds s key v\<close> says
  that the remote state \<open>s\<close> has under \<open>key\<close> an object whose fingerprint annotation is
  \<open>v\<close>. A successful create or update establishes it for the object sent, a read keeps
  it, a successful read reports it, and where it holds a read succeeds with that value.
\<close>

definition readYourWrites :: "'s Client \<Rightarrow> ('s \<Rightarrow> ObjectKey \<Rightarrow> string \<Rightarrow> bool) \<Rightarrow> bool" where
  "readYourWrites c holds \<longleftrightarrow>
     (\<forall>h s obj obj' h' s'. clientCreate c h s obj = (Inr obj', h', s') \<longrightarrow>
        holds s' (ObjectKeyFromObject obj) (GetHash h obj))
   \<and> (\<forall>h s obj obj' h' s'. clientUpdate c h s obj = (Inr obj', h', s') \<longrightarrow>
        holds s' (ObjectKeyFromObject obj) (GetHash h obj))
   \<and> (\<forall>h s key obj k v. holds s k v \<longrightarrow> holds (snd (snd (clientGet c h s key obj))) k v)
   \<and> (\<forall>h s key obj obj' h' s'. clientGet c h s key obj = (Inr obj', h', s') \<longrightarrow>
        holds s' key (GetHash h' obj') \<and> ObjectKeyFromObject obj' = key)
   \<and> (\<forall>h s key obj v. holds s key v \<longrightarrow>
        (\<exists>obj' h' s'. clientGet c h s key obj = (Inr obj', h', s') \<and> GetHash h' obj' = v))"

definition allocated :: "Heap \<Rightarrow> Object \<Rightarrow> bool" where
  "allocated h obj = (case objAnnotations obj of None \<Rightarrow> True | Some a \<Rightarrow> a < nextAddr h)"

subsection \<open>An in-memory store\<close>

text \<open>
  A store in the manner of the fake client the tests build: the objects it holds, each
  with the content of its annotations beside it. A read decodes the stored object into
  the caller's object, with a newly made annotation map; create refuses an existing key;
  update and status update refuse a missing key and a stale version token, and every
  write advances the token.
\<close>

type_synonym Stored = "Object \<times> annotations option"

definition lookup :: "Stored list \<Rightarrow> ObjectKey \<Rightarrow> Stored option" where
  "lookup s key = find (\<lambda>st. ObjectKeyFromObject (fst st) = key) s"

definition replace :: "Stored list \<Rightarrow> ObjectKey \<Rightarrow> Stored \<Rightarrow> Stored list" where
  "replace s key st' = map (\<lambda>st. if ObjectKeyFromObject (fst st) = key then st' else st) s"

definition memGet :: "Heap \<Rightarrow> Stored list \<Rightarrow> ObjectKey \<Rightarrow> Object \<Rightarrow> (error + Object) \<times> Heap \<times> Stored list" where
  "memGet h s key obj =
     (case lookup s key of
        None \<Rightarrow> (Inl (StatusError StatusReasonNotFound), h, s)
      | Some (stored, None) \<Rightarrow> (Inr (stored\<lparr>objAnnotations := None\<rparr>), h, s)
      | Some (stored, Some m) \<Rightarrow>
          (Inr (stored\<lparr>objAnnotations := Some (nextAddr h)\<rparr>),
           h\<lparr>cells := (cells h)(nextAddr h \<mapsto> m), nextAddr := Suc (nextAddr h)\<rparr>, s))"

definition memCreate :: "Heap \<Rightarrow> Stored list \<Rightarrow> Object \<Rightarrow> (error + Object) \<times> Heap \<times> Stored list" where
  "memCreate h s obj =
     (case lookup s (ObjectKeyFromObject obj) of
        Some st \<Rightarrow> (Inl (StatusError StatusReasonAlreadyExists), h, s)
      | None \<Rightarrow>
          (let obj' = obj\<lparr>objResourceVersion := ''1''\<rparr>
           in (Inr obj', h, s @ [(obj'\<lparr>objAnnotations := None\<rparr>, GetAnnotations h obj)])))"

definition memUpdate :: "Heap \<Rightarrow> Stored list \<Rightarrow> Object \<Rightarrow> (error + Object) \<times> Heap \<times> Stored list" where
  "memUpdate h s obj =
     (case lookup s (ObjectKeyFromObject obj) of
        None \<Rightarrow> (Inl (StatusError StatusReasonNotFound), h, s)
      | Some (stored, m) \<Rightarrow>
          (if objResourceVersion obj \<noteq> objResourceVersion stored
           then (Inl (StatusError StatusReasonConflict), h, s)
           else
             (let obj' = obj\<lparr>objResourceVersion := objResourceVersion stored @ ''1''\<rparr>
              in (Inr obj', h,
                  replace s (ObjectKeyFromObject obj)
                    (obj'\<lparr>objAnnotations := None\<rparr>, GetAnnotations h obj)))))"

definition memStatusUpdate :: "Heap \<Rightarrow> Stored list \<Rightarrow> Object \<Rightarrow> (error + Object) \<times> Heap \<times> Stored list" where
  "memStatusUpdate h s obj =
     (case lookup s (ObjectKeyFromObject obj) of
        None \<Rightarrow> (Inl (StatusError StatusReasonNotFound), h, s)
      | Some (stored, m) \<Rightarrow>
          (if objResourceVersion obj \<noteq> objResourceVersion stored
           then (Inl (StatusError StatusReasonConflict), h, s)
           else
             (let rv = objResourceVersion stored @ ''1''
              in (Inr (obj\<lparr>objResourceVersion := rv\<rparr>), h,
                  replace s (ObjectKeyFromObject obj)
                    (stored\<lparr>objStatus := objStatus obj, objResourceVersion := rv\<rparr>, m)))))"

definition memClient :: "Stored list Client" where
  "memClient = \<lparr>clientGet = memGet, clientCreate = memCreate, clientUpdate = memUpdate,
                 clientStatusUpdate = memStatusUpdate\<rparr>"

definition memHolds :: "Stored list \<Rightarrow> ObjectKey \<Rightarrow> string \<Rightarrow> bool" where
  "memHolds s key v =
     (case lookup s key of
        None \<Rightarrow> False
      | Some (stored, None) \<Rightarrow> v = []
      | Some (stored, Some m) \<Rightarrow>
          v = (case map_of m AnnotationKey of None \<Rightarrow> [] | Some x \<Rightarrow> x))"

subsection \<open>The fixture of the updater test\<close>

text \<open>
  \<open>TestCreateOrUpdateFromTemplate\<close>: a template named \<open>test\<close> in namespace \<open>default\<close>
  against an empty store. A second template carries an annotation map of its own.
\<close>

definition emptyHeap :: Heap where
  "emptyHeap = \<lparr>cells = (\<lambda>a. None), nextAddr = 0\<rparr>"

definition emptyWorld :: "Stored list World" where
  "emptyWorld = \<lparr>heap = emptyHeap, remote = [], calls = []\<rparr>"

definition testTemplate :: Object where
  "testTemplate = \<lparr>objName = ''test'', objNamespace = ''default'', objResourceVersion = [],
                    objAnnotations = None, objSpec = [], objStatus = []\<rparr>"

definition testKey :: ObjectKey where
  "testKey = \<lparr>Namespace = ''default'', Name = ''test''\<rparr>"

definition annotatedHeap :: Heap where
  "annotatedHeap = \<lparr>cells = (\<lambda>a. None)(0 \<mapsto> [(''owner'', ''ops'')]), nextAddr = 1\<rparr>"

definition annotatedWorld :: "Stored list World" where
  "annotatedWorld = \<lparr>heap = annotatedHeap, remote = [], calls = []\<rparr>"

definition annotatedTemplate :: Object where
  "annotatedTemplate = testTemplate\<lparr>objAnnotations := Some 0\<rparr>"

text \<open>
  A store that already holds the object of \<open>testTemplate\<close>, stamped with its
  fingerprint, as a first convergence leaves it.
\<close>

definition convergedWorld :: "Stored list World" where
  "convergedWorld =
     \<lparr>heap = emptyHeap,
      remote = [(testTemplate\<lparr>objResourceVersion := ''1''\<rparr>,
                 Some [(AnnotationKey, ''be082e37'')])],
      calls = []\<rparr>"

text \<open>A client whose reads fail with an internal error.\<close>

definition brokenClient :: "Stored list Client" where
  "brokenClient =
     memClient\<lparr>clientGet := (\<lambda>h s key obj. (Inl (StatusError StatusReasonInternalError), h, s))\<rparr>"

text \<open>The blank object a caller hands to \<open>CreateOrUpdate\<close> and \<open>UpdateStatus\<close>, and a
  mutation that changes no field.\<close>

definition blankObject :: Object where
  "blankObject = \<lparr>objName = [], objNamespace = [], objResourceVersion = [],
                   objAnnotations = None, objSpec = [], objStatus = []\<rparr>"




subsection \<open>Auxiliary notions for the proofs\<close>

text \<open>
  \<open>keeps h0 h obj\<close>: the heap \<open>h\<close> extends \<open>h0\<close>, every map allocated in \<open>h0\<close> has
  its content of then, and the working object \<open>obj\<close> refers to no map of \<open>h0\<close>.
\<close>

definition keeps :: "Heap \<Rightarrow> Heap \<Rightarrow> Object \<Rightarrow> bool" where
  "keeps h0 h obj \<longleftrightarrow>
     nextAddr h0 \<le> nextAddr h
   \<and> (\<forall>a < nextAddr h0. cells h a = cells h0 a)
   \<and> (case objAnnotations obj of None \<Rightarrow> True | Some a \<Rightarrow> nextAddr h0 \<le> a)"

text \<open>
  The fingerprint that the first read of \<open>CreateOrUpdateFromTemplate\<close> finds on the
  live object; \<open>None\<close> when that read fails.
\<close>

definition liveFingerprint :: "'s Client \<Rightarrow> 's World \<Rightarrow> Object \<Rightarrow> string option" where
  "liveFingerprint c w template =
     (case DeepCopyObject (heap w) template of
        (obj, h1) \<Rightarrow>
          (case clientGet c h1 (remote w) (ObjectKeyFromObject obj) obj of
             (Inl err, h2, s2) \<Rightarrow> None
           | (Inr obj1, h2, s2) \<Rightarrow> Some (GetHash h2 obj1)))"

section \<open>Reference resolution: what is proved\<close>











lemma testScheme_decodes:
  "Decode testScheme (testEncode myObjectFirst) = Inr (Typed ''MyObject'' myObjectFirst)"
  "Decode testScheme (testEncode secretDemo) = Inl notRegisteredErr"
  "Decode testScheme (testEncode configMapSettings) = Inl notRegisteredErr"
  by (simp_all add: testScheme_def testEncode_def myObjectFirst_def secretDemo_def configMapSettings_def)


text \<open>
  Claim C10. When the registry does not know the core type, the fixed-kind references
  reach the fallback of \<open>Resolve\<close> and the type assertion on the unstructured result
  panics: \<open>LocalSecretReference.Resolve\<close> and \<open>LocalConfigMapReference.Resolve\<close> do
  not return an error there. Each of them returns exactly when the general resolver
  fails or yields the expected concrete type.
\<close>

theorem Local_references_panic_on_fallback:
  assumes "Accessor parent = Inr parentMeta"
  shows "(Get reader \<lparr>Namespace = namespace parentMeta, Name = secretName\<rparr>
            (emptyUnstructured\<lparr>apiVersion := ''v1'', kind := ''Secret''\<rparr>) = Inr us
          \<and> MarshalJSON reader us = Inr bs \<and> Decode scheme bs = Inl es \<and> IsNotRegisteredError es
          \<longrightarrow> LocalSecretReference_Resolve secretName reader scheme parent =
                Panicked ''interface conversion: runtime.Object is not *v1.Secret'')
       \<and> (Get reader \<lparr>Namespace = namespace parentMeta, Name = configMapName\<rparr>
            (emptyUnstructured\<lparr>apiVersion := ''v1'', kind := ''ConfigMap''\<rparr>) = Inr uc
          \<and> MarshalJSON reader uc = Inr bc \<and> Decode scheme bc = Inl ec \<and> IsNotRegisteredError ec
          \<longrightarrow> LocalConfigMapReference_Resolve configMapName reader scheme parent =
                Panicked ''interface conversion: runtime.Object is not *v1.ConfigMap'')
       \<and> ((\<exists>r. LocalSecretReference_Resolve secretName reader scheme parent = Returned r) \<longleftrightarrow>
            (case fst (Resolve \<lparr>refName = secretName, refNamespace = [], refAPIVersion = ''v1'',
                               refKind = ''Secret''\<rparr> reader scheme parent) of
               Inl err \<Rightarrow> True | Inr obj \<Rightarrow> (\<exists>d. obj = Secret d)))
       \<and> ((\<exists>r. LocalConfigMapReference_Resolve configMapName reader scheme parent = Returned r) \<longleftrightarrow>
            (case fst (Resolve \<lparr>refName = configMapName, refNamespace = [], refAPIVersion = ''v1'',
                               refKind = ''ConfigMap''\<rparr> reader scheme parent) of
               Inl err \<Rightarrow> True | Inr obj \<Rightarrow> (\<exists>d. obj = ConfigMap d)))"
proof (intro conjI)
  show "Get reader \<lparr>Namespace = namespace parentMeta, Name = secretName\<rparr>
            (emptyUnstructured\<lparr>apiVersion := ''v1'', kind := ''Secret''\<rparr>) = Inr us
          \<and> MarshalJSON reader us = Inr bs \<and> Decode scheme bs = Inl es \<and> IsNotRegisteredError es
          \<longrightarrow> LocalSecretReference_Resolve secretName reader scheme parent =
                Panicked ''interface conversion: runtime.Object is not *v1.Secret''"
    using assms by (simp add: LocalSecretReference_Resolve_def Resolve_def Let_def)
  show "Get reader \<lparr>Namespace = namespace parentMeta, Name = configMapName\<rparr>
            (emptyUnstructured\<lparr>apiVersion := ''v1'', kind := ''ConfigMap''\<rparr>) = Inr uc
          \<and> MarshalJSON reader uc = Inr bc \<and> Decode scheme bc = Inl ec \<and> IsNotRegisteredError ec
          \<longrightarrow> LocalConfigMapReference_Resolve configMapName reader scheme parent =
                Panicked ''interface conversion: runtime.Object is not *v1.ConfigMap''"
    using assms by (simp add: LocalConfigMapReference_Resolve_def Resolve_def Let_def)
  show "(\<exists>r. LocalSecretReference_Resolve secretName reader scheme parent = Returned r) \<longleftrightarrow>
            (case fst (Resolve \<lparr>refName = secretName, refNamespace = [], refAPIVersion = ''v1'',
                               refKind = ''Secret''\<rparr> reader scheme parent) of
               Inl err \<Rightarrow> True | Inr obj \<Rightarrow> (\<exists>d. obj = Secret d))"
    by (auto simp: LocalSecretReference_Resolve_def split: sum.splits RuntimeObject.splits)
  show "(\<exists>r. LocalConfigMapReference_Resolve configMapName reader scheme parent = Returned r) \<longleftrightarrow>
            (case fst (Resolve \<lparr>refName = configMapName, refNamespace = [], refAPIVersion = ''v1'',
                               refKind = ''ConfigMap''\<rparr> reader scheme parent) of
               Inl err \<Rightarrow> True | Inr obj \<Rightarrow> (\<exists>d. obj = ConfigMap d))"
    by (auto simp: LocalConfigMapReference_Resolve_def split: sum.splits RuntimeObject.splits)
qed

lemma testReaderWithConfigMap_gets:
  "Get testReaderWithConfigMap \<lparr>Namespace = ''default'', Name = ''demo''\<rparr>
     (emptyUnstructured\<lparr>apiVersion := ''v1'', kind := ''Secret''\<rparr>) = Inr secretDemo"
  "Get testReaderWithConfigMap \<lparr>Namespace = ''default'', Name = ''settings''\<rparr>
     (emptyUnstructured\<lparr>apiVersion := ''v1'', kind := ''ConfigMap''\<rparr>) = Inr configMapSettings"
  "MarshalJSON testReaderWithConfigMap d = Inr (testEncode d)"
  by (simp_all add: testReaderWithConfigMap_def testReader_def emptyUnstructured_def)

lemma testParent_accessor:
  "Accessor testParent = Inr \<lparr>apiVersion = [], kind = [], name = ''second'',
                              namespace = ''default'', payload = []\<rparr>"
  by (simp add: testParent_def)

theorem Local_references_panic_witness:
  "LocalSecretReference_Resolve ''demo'' testReaderWithConfigMap testScheme testParent =
     Panicked ''interface conversion: runtime.Object is not *v1.Secret''
   \<and> LocalConfigMapReference_Resolve ''settings'' testReaderWithConfigMap testScheme testParent =
     Panicked ''interface conversion: runtime.Object is not *v1.ConfigMap''"
  using Local_references_panic_on_fallback [OF testParent_accessor,
      where reader = testReaderWithConfigMap and scheme = testScheme
        and secretName = "''demo''" and us = secretDemo and bs = "testEncode secretDemo"
        and es = notRegisteredErr
        and configMapName = "''settings''" and uc = configMapSettings
        and bc = "testEncode configMapSettings" and ec = notRegisteredErr]
  by (simp add: testReaderWithConfigMap_gets testScheme_decodes)

section \<open>The updater: what is proved\<close>

subsection \<open>Fingerprint annotation, deep copy and the frame of the heap\<close>

lemma GetHash_StoreHash: "StoreHash h obj v = (obj', h') \<Longrightarrow> GetHash h' obj' = v"
  by (auto simp: StoreHash_def GetHash_def GetAnnotations_def update_conv' split: option.splits)

lemma key_StoreHash:
  "StoreHash h obj v = (obj', h') \<Longrightarrow> ObjectKeyFromObject obj' = ObjectKeyFromObject obj"
  by (auto simp: StoreHash_def ObjectKeyFromObject_def split: option.splits)

lemma key_DeepCopyObject:
  "DeepCopyObject h t = (obj, h1) \<Longrightarrow> ObjectKeyFromObject obj = ObjectKeyFromObject t"
  by (auto simp: DeepCopyObject_def ObjectKeyFromObject_def split: option.splits)

lemma keeps_DeepCopyObject: "DeepCopyObject h0 t = (obj, h1) \<Longrightarrow> keeps h0 h1 obj"
  by (auto simp: DeepCopyObject_def keeps_def split: option.splits)

lemma keeps_StoreHash:
  "keeps h0 h obj \<Longrightarrow> StoreHash h obj v = (obj', h') \<Longrightarrow> keeps h0 h' obj'"
  by (auto simp: StoreHash_def keeps_def split: option.splits)

lemma keeps_frameStep:
  assumes "keeps h0 h obj" and "frameStep h obj (r, h', s')"
  shows "keeps h0 h' obj" and "r = Inr obj' \<Longrightarrow> keeps h0 h' obj'"
  using assms
  by (auto simp: keeps_def frameStep_def split: option.splits sum.splits)

lemma keeps_cGet:
  assumes "clientFrame c" and "keeps h0 (heap w) obj" and "cGet c w key obj = (r, w')"
  shows "keeps h0 (heap w') obj" and "r = Inr obj' \<Longrightarrow> keeps h0 (heap w') obj'"
proof -
  obtain h' s' where g: "clientGet c (heap w) (remote w) key obj = (r, h', s')" and w': "heap w' = h'"
    using assms(3) by (auto simp: cGet_def split: prod.splits)
  from assms(1) have "frameStep (heap w) obj (r, h', s')"
    unfolding clientFrame_def using g by metis
  from keeps_frameStep[OF assms(2) this] w'
  show "keeps h0 (heap w') obj" and "r = Inr obj' \<Longrightarrow> keeps h0 (heap w') obj'" by auto
qed

lemma keeps_cCreate:
  assumes "clientFrame c" and "keeps h0 (heap w) obj" and "cCreate c w obj = (r, w')"
  shows "keeps h0 (heap w') obj" and "r = Inr obj' \<Longrightarrow> keeps h0 (heap w') obj'"
proof -
  obtain h' s' where g: "clientCreate c (heap w) (remote w) obj = (r, h', s')" and w': "heap w' = h'"
    using assms(3) by (auto simp: cCreate_def split: prod.splits)
  from assms(1) have "frameStep (heap w) obj (r, h', s')"
    unfolding clientFrame_def using g by metis
  from keeps_frameStep[OF assms(2) this] w'
  show "keeps h0 (heap w') obj" and "r = Inr obj' \<Longrightarrow> keeps h0 (heap w') obj'" by auto
qed

lemma keeps_cUpdate:
  assumes "clientFrame c" and "keeps h0 (heap w) obj" and "cUpdate c w obj = (r, w')"
  shows "keeps h0 (heap w') obj" and "r = Inr obj' \<Longrightarrow> keeps h0 (heap w') obj'"
proof -
  obtain h' s' where g: "clientUpdate c (heap w) (remote w) obj = (r, h', s')" and w': "heap w' = h'"
    using assms(3) by (auto simp: cUpdate_def split: prod.splits)
  from assms(1) have "frameStep (heap w) obj (r, h', s')"
    unfolding clientFrame_def using g by metis
  from keeps_frameStep[OF assms(2) this] w'
  show "keeps h0 (heap w') obj" and "r = Inr obj' \<Longrightarrow> keeps h0 (heap w') obj'" by auto
qed

lemma CreateOrUpdateFromTemplate_keeps:
  assumes fr: "clientFrame c" and res: "CreateOrUpdateFromTemplate c w template = (r, w')"
  shows "\<exists>obj. keeps (heap w) (heap w') obj"
proof -
  obtain obj h1 where dc: "DeepCopyObject (heap w) template = (obj, h1)" by fastforce
  have k1: "keeps (heap w) (heap (w\<lparr>heap := h1\<rparr>)) obj"
    using keeps_DeepCopyObject[OF dc] by simp
  obtain r1 w2 where g1: "cGet c (w\<lparr>heap := h1\<rparr>) (ObjectKeyFromObject obj) obj = (r1, w2)" by fastforce
  note k2 = keeps_cGet[OF fr k1 g1]
  show ?thesis
  proof (cases r1)
    case (Inl err)
    show ?thesis
    proof (cases "IsNotFound err")
      case False
      with res dc g1 Inl have "w' = w2" by (simp add: CreateOrUpdateFromTemplate_def)
      with k2(1) show ?thesis by blast
    next
      case True
      obtain obj2 h3 where sh: "StoreHash (heap w2) obj (HashObject (heap w) template) = (obj2, h3)"
        by fastforce
      have k3: "keeps (heap w) (heap (w2\<lparr>heap := h3\<rparr>)) obj2"
        using keeps_StoreHash[OF k2(1) sh] by simp
      obtain r3 w4 where cr: "cCreate c (w2\<lparr>heap := h3\<rparr>) obj2 = (r3, w4)" by fastforce
      note k4 = keeps_cCreate[OF fr k3 cr]
      show ?thesis
      proof (cases r3)
        case (Inl e3)
        with res dc g1 \<open>r1 = Inl err\<close> True sh cr have "w' = w4"
          by (simp add: CreateOrUpdateFromTemplate_def)
        with k4(1) show ?thesis by blast
      next
        case (Inr obj3)
        obtain r5 w5 where g2: "cGet c w4 (ObjectKeyFromObject obj) obj3 = (r5, w5)" by fastforce
        have "w' = w5" using res dc g1 \<open>r1 = Inl err\<close> True sh cr Inr g2
          by (auto simp: CreateOrUpdateFromTemplate_def split: sum.splits if_splits)
        with keeps_cGet(1)[OF fr k4(2)[OF Inr] g2] show ?thesis by blast
      qed
    qed
  next
    case (Inr obj1)
    show ?thesis
    proof (cases "GetHash (heap w2) obj1 \<noteq> HashObject (heap w) template")
      case False
      with res dc g1 Inr have "w' = w2" by (simp add: CreateOrUpdateFromTemplate_def)
      with k2(1) show ?thesis by blast
    next
      case True
      obtain obj2 h3 where sh: "StoreHash (heap w2) obj1 (HashObject (heap w) template) = (obj2, h3)"
        by fastforce
      have k3: "keeps (heap w) (heap (w2\<lparr>heap := h3\<rparr>)) obj2"
        using keeps_StoreHash[OF k2(2)[OF Inr] sh] by simp
      obtain r3 w4 where up: "cUpdate c (w2\<lparr>heap := h3\<rparr>) obj2 = (r3, w4)" by fastforce
      note k4 = keeps_cUpdate[OF fr k3 up]
      show ?thesis
      proof (cases r3)
        case (Inl e3)
        with res dc g1 \<open>r1 = Inr obj1\<close> True sh up have "w' = w4"
          by (simp add: CreateOrUpdateFromTemplate_def)
        with k4(1) show ?thesis by blast
      next
        case (Inr obj3)
        obtain r5 w5 where g2: "cGet c w4 (ObjectKeyFromObject obj) obj3 = (r5, w5)" by fastforce
        have "w' = w5" using res dc g1 \<open>r1 = Inr obj1\<close> True sh up Inr g2
          by (auto simp: CreateOrUpdateFromTemplate_def split: sum.splits if_splits)
        with keeps_cGet(1)[OF fr k4(2)[OF Inr] g2] show ?thesis by blast
      qed
    qed
  qed
qed


lemma CreateOrUpdateFromTemplate_cases
  [consumes 1, case_names GetFailed CreateFailed Created Unchanged UpdateFailed Updated]:
  assumes "CreateOrUpdateFromTemplate c w template = (r, w')"
  obtains
    (GetFailed) obj h1 err where
      "DeepCopyObject (heap w) template = (obj, h1)"
      "cGet c (w\<lparr>heap := h1\<rparr>) (ObjectKeyFromObject obj) obj = (Inl err, w')"
      "\<not> IsNotFound err" "r = Inl (wrapError ''failed to get object'' err)"
  | (CreateFailed) obj h1 err w2 obj2 h3 err' where
      "DeepCopyObject (heap w) template = (obj, h1)"
      "cGet c (w\<lparr>heap := h1\<rparr>) (ObjectKeyFromObject obj) obj = (Inl err, w2)"
      "IsNotFound err"
      "StoreHash (heap w2) obj (HashObject (heap w) template) = (obj2, h3)"
      "cCreate c (w2\<lparr>heap := h3\<rparr>) obj2 = (Inl err', w')"
      "r = Inl (wrapError ''failed to create object'' err')"
  | (Created) obj h1 err w2 obj2 h3 obj3 w4 r5 where
      "DeepCopyObject (heap w) template = (obj, h1)"
      "cGet c (w\<lparr>heap := h1\<rparr>) (ObjectKeyFromObject obj) obj = (Inl err, w2)"
      "IsNotFound err"
      "StoreHash (heap w2) obj (HashObject (heap w) template) = (obj2, h3)"
      "cCreate c (w2\<lparr>heap := h3\<rparr>) obj2 = (Inr obj3, w4)"
      "cGet c w4 (ObjectKeyFromObject obj) obj3 = (r5, w')"
      "r = (case r5 of
              Inl e \<Rightarrow> if \<not> IsNotFound e then Inl (wrapError ''failed to get object'' e) else Inr obj3
            | Inr obj4 \<Rightarrow> Inr obj4)"
  | (Unchanged) obj h1 obj1 where
      "DeepCopyObject (heap w) template = (obj, h1)"
      "cGet c (w\<lparr>heap := h1\<rparr>) (ObjectKeyFromObject obj) obj = (Inr obj1, w')"
      "GetHash (heap w') obj1 = HashObject (heap w) template" "r = Inr obj1"
  | (UpdateFailed) obj h1 obj1 w2 obj2 h3 err' where
      "DeepCopyObject (heap w) template = (obj, h1)"
      "cGet c (w\<lparr>heap := h1\<rparr>) (ObjectKeyFromObject obj) obj = (Inr obj1, w2)"
      "GetHash (heap w2) obj1 \<noteq> HashObject (heap w) template"
      "StoreHash (heap w2) obj1 (HashObject (heap w) template) = (obj2, h3)"
      "cUpdate c (w2\<lparr>heap := h3\<rparr>) obj2 = (Inl err', w')"
      "r = Inl (wrapError ''failed to update object'' err')"
  | (Updated) obj h1 obj1 w2 obj2 h3 obj3 w4 r5 where
      "DeepCopyObject (heap w) template = (obj, h1)"
      "cGet c (w\<lparr>heap := h1\<rparr>) (ObjectKeyFromObject obj) obj = (Inr obj1, w2)"
      "GetHash (heap w2) obj1 \<noteq> HashObject (heap w) template"
      "StoreHash (heap w2) obj1 (HashObject (heap w) template) = (obj2, h3)"
      "cUpdate c (w2\<lparr>heap := h3\<rparr>) obj2 = (Inr obj3, w4)"
      "cGet c w4 (ObjectKeyFromObject obj) obj3 = (r5, w')"
      "r = (case r5 of
              Inl e \<Rightarrow> if \<not> IsNotFound e then Inl (wrapError ''failed to get object'' e) else Inr obj3
            | Inr obj4 \<Rightarrow> Inr obj4)"
  using assms
  unfolding CreateOrUpdateFromTemplate_def Let_def
  by (auto split: prod.splits sum.splits if_splits)


lemma cGet_E:
  assumes "cGet c w key obj = (r, w')"
  obtains h' s' where "clientGet c (heap w) (remote w) key obj = (r, h', s')"
    "w' = \<lparr>heap = h', remote = s', calls = calls w @ [CallGet key]\<rparr>"
  using assms by (auto simp: cGet_def split: prod.splits)

lemma cCreate_E:
  assumes "cCreate c w obj = (r, w')"
  obtains h' s' where "clientCreate c (heap w) (remote w) obj = (r, h', s')"
    "w' = \<lparr>heap = h', remote = s',
           calls = calls w @ [CallCreate obj (GetAnnotations (heap w) obj)]\<rparr>"
  using assms by (auto simp: cCreate_def split: prod.splits)

lemma cUpdate_E:
  assumes "cUpdate c w obj = (r, w')"
  obtains h' s' where "clientUpdate c (heap w) (remote w) obj = (r, h', s')"
    "w' = \<lparr>heap = h', remote = s',
           calls = calls w @ [CallUpdate obj (GetAnnotations (heap w) obj)]\<rparr>"
  using assms by (auto simp: cUpdate_def split: prod.splits)

lemma ryw_create:
  "readYourWrites c holds \<Longrightarrow> clientCreate c h s obj = (Inr obj', h', s') \<Longrightarrow>
   holds s' (ObjectKeyFromObject obj) (GetHash h obj)"
  unfolding readYourWrites_def by (elim conjE) fast

lemma ryw_update:
  "readYourWrites c holds \<Longrightarrow> clientUpdate c h s obj = (Inr obj', h', s') \<Longrightarrow>
   holds s' (ObjectKeyFromObject obj) (GetHash h obj)"
  unfolding readYourWrites_def by (elim conjE) fast

lemma ryw_get_keeps:
  "readYourWrites c holds \<Longrightarrow> holds s k v \<Longrightarrow> clientGet c h s key obj = (r, h', s') \<Longrightarrow>
   holds s' k v"
  unfolding readYourWrites_def by (elim conjE) (metis snd_conv)

lemma ryw_get_reports:
  "readYourWrites c holds \<Longrightarrow> clientGet c h s key obj = (Inr obj', h', s') \<Longrightarrow>
   holds s' key (GetHash h' obj') \<and> ObjectKeyFromObject obj' = key"
  unfolding readYourWrites_def by (elim conjE) fast

lemma ryw_get_succeeds:
  "readYourWrites c holds \<Longrightarrow> holds s key v \<Longrightarrow>
   \<exists>obj' h' s'. clientGet c h s key obj = (Inr obj', h', s') \<and> GetHash h' obj' = v"
  unfolding readYourWrites_def by (elim conjE) fast

lemma refetch_holds:
  assumes ryw: "readYourWrites c holds" and h: "holds (remote w4) key v"
    and g: "cGet c w4 key obj3 = (r5, w')"
  shows "\<exists>obj4. r5 = Inr obj4 \<and> GetHash (heap w') obj4 = v \<and> holds (remote w') key v"
proof -
  from g obtain h' s' where cg: "clientGet c (heap w4) (remote w4) key obj3 = (r5, h', s')"
    and w': "w' = \<lparr>heap = h', remote = s', calls = calls w4 @ [CallGet key]\<rparr>"
    by (rule cGet_E)
  from ryw_get_succeeds[OF ryw h]
  have "\<exists>obj' h' s'. clientGet c (heap w4) (remote w4) key obj3 = (Inr obj', h', s')
      \<and> GetHash h' obj' = v" .
  with cg obtain obj4 where r5: "r5 = Inr obj4" and gh: "GetHash h' obj4 = v" by auto
  from ryw_get_keeps[OF ryw h cg] have "holds s' key v" .
  with r5 gh w' show ?thesis by simp
qed

lemma CreateOrUpdateFromTemplate_establishes:
  assumes ryw: "readYourWrites c holds"
    and res: "CreateOrUpdateFromTemplate c w template = (Inr r1, w1)"
  shows "holds (remote w1) (ObjectKeyFromObject template) (HashObject (heap w) template)
       \<and> GetHash (heap w1) r1 = HashObject (heap w) template"
  using res
proof (cases rule: CreateOrUpdateFromTemplate_cases)
  case (Created obj h1 err w2 obj2 h3 obj3 w4 r5)
  have key: "ObjectKeyFromObject obj = ObjectKeyFromObject template"
    using key_DeepCopyObject[OF Created(1)] .
  from Created(5) obtain h4 s4 where
    cc: "clientCreate c h3 (remote w2) obj2 = (Inr obj3, h4, s4)" and w4: "remote w4 = s4"
    by (auto elim!: cCreate_E)
  from ryw_create[OF ryw cc] have "holds s4 (ObjectKeyFromObject obj2) (GetHash h3 obj2)" .
  with key_StoreHash[OF Created(4)] GetHash_StoreHash[OF Created(4)] key w4
  have "holds (remote w4) (ObjectKeyFromObject obj) (HashObject (heap w) template)" by simp
  from refetch_holds[OF ryw this Created(6)] Created(7) key show ?thesis by auto
next
  case (Updated obj h1 obj1 w2 obj2 h3 obj3 w4 r5)
  have key: "ObjectKeyFromObject obj = ObjectKeyFromObject template"
    using key_DeepCopyObject[OF Updated(1)] .
  from Updated(2) obtain h2 s2 where
    cg: "clientGet c h1 (remote w) (ObjectKeyFromObject obj) obj = (Inr obj1, h2, s2)"
    by (auto elim!: cGet_E)
  from ryw_get_reports[OF ryw cg] have k1: "ObjectKeyFromObject obj1 = ObjectKeyFromObject obj"
    by simp
  from Updated(5) obtain h4 s4 where
    cu: "clientUpdate c h3 (remote w2) obj2 = (Inr obj3, h4, s4)" and w4: "remote w4 = s4"
    by (auto elim!: cUpdate_E)
  from ryw_update[OF ryw cu] have "holds s4 (ObjectKeyFromObject obj2) (GetHash h3 obj2)" .
  with key_StoreHash[OF Updated(4)] GetHash_StoreHash[OF Updated(4)] k1 w4
  have "holds (remote w4) (ObjectKeyFromObject obj) (HashObject (heap w) template)" by simp
  from refetch_holds[OF ryw this Updated(6)] Updated(7) key show ?thesis by auto
next
  case (Unchanged obj h1 obj1)
  have key: "ObjectKeyFromObject obj = ObjectKeyFromObject template"
    using key_DeepCopyObject[OF Unchanged(1)] .
  from Unchanged(2) obtain h2 s2 where
    cg: "clientGet c h1 (remote w) (ObjectKeyFromObject obj) obj = (Inr obj1, h2, s2)"
    and w1: "heap w1 = h2" "remote w1 = s2"
    by (auto elim!: cGet_E)
  from ryw_get_reports[OF ryw cg] have "holds s2 (ObjectKeyFromObject obj) (GetHash h2 obj1)"
    by simp
  with Unchanged(3,4) w1 key show ?thesis by simp
qed simp_all

lemma CreateOrUpdateFromTemplate_converged:
  assumes ryw: "readYourWrites c holds"
    and h: "holds (remote w) (ObjectKeyFromObject template) (HashObject (heap w) template)"
  shows "\<exists>r w'. CreateOrUpdateFromTemplate c w template = (Inr r, w')
           \<and> calls w' = calls w @ [CallGet (ObjectKeyFromObject template)]
           \<and> GetHash (heap w') r = HashObject (heap w) template"
proof -
  obtain obj h1 where dc: "DeepCopyObject (heap w) template = (obj, h1)" by fastforce
  have key: "ObjectKeyFromObject obj = ObjectKeyFromObject template"
    using key_DeepCopyObject[OF dc] .
  obtain r1 w2 where g: "cGet c (w\<lparr>heap := h1\<rparr>) (ObjectKeyFromObject obj) obj = (r1, w2)"
    by fastforce
  from h key have "holds (remote (w\<lparr>heap := h1\<rparr>)) (ObjectKeyFromObject obj)
      (HashObject (heap w) template)" by simp
  from refetch_holds[OF ryw this g] obtain obj1 where
    r1: "r1 = Inr obj1" and gh: "GetHash (heap w2) obj1 = HashObject (heap w) template" by blast
  from g have cl: "calls w2 = calls w @ [CallGet (ObjectKeyFromObject obj)]"
    by (auto elim!: cGet_E)
  have "CreateOrUpdateFromTemplate c w template = (Inr obj1, w2)"
    using dc g r1 gh by (simp add: CreateOrUpdateFromTemplate_def)
  with cl gh key show ?thesis by simp
qed

lemma CreateOrUpdateFromTemplate_writes:
  assumes res: "CreateOrUpdateFromTemplate c w template = (Inr r1, w1)"
  shows "length (filter isWrite (calls w1)) =
         length (filter isWrite (calls w)) +
           (if liveFingerprint c w template = Some (HashObject (heap w) template) then 0 else 1)"
  using res
proof (cases rule: CreateOrUpdateFromTemplate_cases)
  case (Created obj h1 err w2 obj2 h3 obj3 w4 r5)
  from Created(2) have lf: "liveFingerprint c w template = None"
    using Created(1) by (auto simp: liveFingerprint_def elim!: cGet_E)
  from Created(2,5,6) have
    "calls w1 = calls w @ [CallGet (ObjectKeyFromObject obj),
       CallCreate obj2 (GetAnnotations h3 obj2), CallGet (ObjectKeyFromObject obj)]"
    by (auto elim!: cGet_E cCreate_E)
  with lf show ?thesis by simp
next
  case (Updated obj h1 obj1 w2 obj2 h3 obj3 w4 r5)
  from Updated(2,3) have lf: "liveFingerprint c w template \<noteq> Some (HashObject (heap w) template)"
    using Updated(1) by (auto simp: liveFingerprint_def elim!: cGet_E)
  from Updated(2,5,6) have
    "calls w1 = calls w @ [CallGet (ObjectKeyFromObject obj),
       CallUpdate obj2 (GetAnnotations h3 obj2), CallGet (ObjectKeyFromObject obj)]"
    by (auto elim!: cGet_E cUpdate_E)
  with lf show ?thesis by simp
next
  case (Unchanged obj h1 obj1)
  from Unchanged(2,3) have lf: "liveFingerprint c w template = Some (HashObject (heap w) template)"
    using Unchanged(1) by (auto simp: liveFingerprint_def elim!: cGet_E)
  from Unchanged(2) have "calls w1 = calls w @ [CallGet (ObjectKeyFromObject obj)]"
    by (auto elim!: cGet_E)
  with lf show ?thesis by simp
qed simp_all

lemma HashObject_keeps:
  assumes "keeps h0 h obj" and "allocated h0 template"
  shows "HashObject h template = HashObject h0 template"
  using assms
  by (auto simp: HashObject_def ForHash_def GetAnnotations_def keeps_def allocated_def
      split: option.splits)

text \<open>
  Claim C1, amended. Take a store without external change, which reads back what was
  written, and a client that leaves the caller's other maps alone. If the first call
  of \<open>CreateOrUpdateFromTemplate\<close> succeeds, it performs exactly one write (create or
  update) when its first read finds no object or a fingerprint other than the
  template's, and no write when the live object already carries the template's
  fingerprint; the second call then succeeds with one read and no write; and the
  fingerprint annotation of the object returned is the template's fingerprint after
  both calls.
\<close>

theorem CreateOrUpdateFromTemplate_idempotent:
  assumes fr: "clientFrame c" and ryw: "readYourWrites c holds"
    and al: "allocated (heap w) template"
    and res: "CreateOrUpdateFromTemplate c w template = (Inr r1, w1)"
  shows "\<exists>r2 w2. CreateOrUpdateFromTemplate c w1 template = (Inr r2, w2)
           \<and> calls w2 = calls w1 @ [CallGet (ObjectKeyFromObject template)]
           \<and> GetHash (heap w1) r1 = HashObject (heap w) template
           \<and> GetHash (heap w2) r2 = HashObject (heap w) template
           \<and> length (filter isWrite (calls w1)) =
               length (filter isWrite (calls w)) +
                 (if liveFingerprint c w template = Some (HashObject (heap w) template)
                  then 0 else 1)"
proof -
  from CreateOrUpdateFromTemplate_keeps[OF fr res] obtain obj where "keeps (heap w) (heap w1) obj" ..
  from HashObject_keeps[OF this al]
  have same: "HashObject (heap w1) template = HashObject (heap w) template" .
  from CreateOrUpdateFromTemplate_establishes[OF ryw res]
  have est: "holds (remote w1) (ObjectKeyFromObject template) (HashObject (heap w) template)"
    and h1: "GetHash (heap w1) r1 = HashObject (heap w) template" by simp_all
  from est same
  have "holds (remote w1) (ObjectKeyFromObject template) (HashObject (heap w1) template)" by simp
  from CreateOrUpdateFromTemplate_converged[OF ryw this] same h1
    CreateOrUpdateFromTemplate_writes[OF res]
  show ?thesis by auto
qed

subsection \<open>The in-memory store meets the assumptions\<close>

lemma find_replace:
  assumes "P st'"
  shows "find P (map (\<lambda>st. if P st then st' else st) s) =
         (case find P s of None \<Rightarrow> None | Some x \<Rightarrow> Some st')"
  using assms by (induction s) auto

lemma find_snoc:
  "find P (xs @ [y]) = (case find P xs of None \<Rightarrow> if P y then Some y else None | Some x \<Rightarrow> Some x)"
  by (induction xs) auto

lemma find_holds: "find P xs = Some x \<Longrightarrow> P x"
  by (induction xs) (auto split: if_splits)

lemma lookup_append:
  "lookup (s @ [st]) key =
     (case lookup s key of
        None \<Rightarrow> if ObjectKeyFromObject (fst st) = key then Some st else None
      | Some x \<Rightarrow> Some x)"
  by (simp add: lookup_def find_snoc)

lemma lookup_replace:
  assumes "ObjectKeyFromObject (fst st') = key"
  shows "lookup (replace s key st') key = (case lookup s key of None \<Rightarrow> None | Some x \<Rightarrow> Some st')"
  unfolding lookup_def replace_def using assms
  by (intro find_replace[where P = "\<lambda>st. ObjectKeyFromObject (fst st) = key"]) simp

lemma lookup_key: "lookup s key = Some (stored, m) \<Longrightarrow> ObjectKeyFromObject stored = key"
  unfolding lookup_def by (drule find_holds) simp

lemma memClient_frame: "clientFrame memClient"
  by (auto simp: clientFrame_def memClient_def frameStep_def memGet_def memCreate_def
        memUpdate_def Let_def split: option.splits prod.splits)

lemma memClient_readYourWrites: "readYourWrites memClient memHolds"
  unfolding readYourWrites_def
proof (intro conjI allI impI)
  fix h s obj obj' h' s'
  assume "clientCreate memClient h s obj = (Inr obj', h', s')"
  then show "memHolds s' (ObjectKeyFromObject obj) (GetHash h obj)"
    by (auto simp: memClient_def memCreate_def memHolds_def lookup_append Let_def GetHash_def
          ObjectKeyFromObject_def split: option.splits)
next
  fix h s obj obj' h' s'
  assume "clientUpdate memClient h s obj = (Inr obj', h', s')"
  then show "memHolds s' (ObjectKeyFromObject obj) (GetHash h obj)"
    by (auto simp: memClient_def memUpdate_def memHolds_def lookup_replace Let_def GetHash_def
          ObjectKeyFromObject_def split: option.splits if_splits)
next
  fix h s key obj k v
  assume "memHolds s k v"
  then show "memHolds (snd (snd (clientGet memClient h s key obj))) k v"
    by (auto simp: memClient_def memGet_def split: option.splits)
next
  fix h s key obj obj' h' s'
  assume g: "clientGet memClient h s key obj = (Inr obj', h', s')"
  then show "memHolds s' key (GetHash h' obj')"
    by (auto simp: memClient_def memGet_def memHolds_def GetHash_def GetAnnotations_def
          split: option.splits)
  from g show "ObjectKeyFromObject obj' = key"
    by (auto simp: memClient_def memGet_def ObjectKeyFromObject_def
          dest!: lookup_key split: option.splits)
next
  fix h s key obj v
  assume "memHolds s key v"
  then show "\<exists>obj' h' s'. clientGet memClient h s key obj = (Inr obj', h', s') \<and> GetHash h' obj' = v"
    by (auto simp: memClient_def memGet_def memHolds_def GetHash_def GetAnnotations_def
          split: option.splits)
qed

subsection \<open>Idempotence on the in-memory store\<close>

lemma HashObject_nil_annotations:
  "objAnnotations obj = None \<Longrightarrow> HashObject h obj = HashObject emptyHeap obj"
  by (simp add: HashObject_def ForHash_def GetAnnotations_def)

lemma testTemplate_hash_emptyHeap: "HashObject emptyHeap testTemplate = ''be082e37''"
  by code_simp

lemma testTemplate_hash: "HashObject h testTemplate = ''be082e37''"
  using HashObject_nil_annotations[of testTemplate h] testTemplate_hash_emptyHeap
  by (simp add: testTemplate_def)

lemma first_call:
  "\<exists>r1 w1. CreateOrUpdateFromTemplate memClient emptyWorld testTemplate = (Inr r1, w1)"
  by (simp add: CreateOrUpdateFromTemplate_def testTemplate_hash DeepCopyObject_def
      cGet_def cCreate_def memClient_def memGet_def memCreate_def lookup_def
      StoreHash_def emptyWorld_def emptyHeap_def ObjectKeyFromObject_def GetAnnotations_def
      Let_def testTemplate_def)

theorem CreateOrUpdateFromTemplate_idempotent_witness:
  "clientFrame memClient \<and> readYourWrites memClient memHolds
   \<and> allocated (heap emptyWorld) testTemplate
   \<and> (\<exists>r1 w1 r2 w2.
         CreateOrUpdateFromTemplate memClient emptyWorld testTemplate = (Inr r1, w1)
       \<and> CreateOrUpdateFromTemplate memClient w1 testTemplate = (Inr r2, w2)
       \<and> calls w2 = calls w1 @ [CallGet testKey]
       \<and> GetHash (heap w1) r1 = ''be082e37'' \<and> GetHash (heap w2) r2 = ''be082e37''
       \<and> length (filter isWrite (calls w1)) = 1)"
proof -
  have al: "allocated (heap emptyWorld) testTemplate"
    by (simp add: allocated_def testTemplate_def)
  have lf: "liveFingerprint memClient emptyWorld testTemplate = None"
    by (simp add: liveFingerprint_def DeepCopyObject_def memClient_def memGet_def lookup_def
        emptyWorld_def testTemplate_def)
  have key: "ObjectKeyFromObject testTemplate = testKey"
    by (simp add: ObjectKeyFromObject_def testTemplate_def testKey_def)
  have ew: "calls emptyWorld = []" by (simp add: emptyWorld_def)
  from first_call obtain r1 w1 where
    res: "CreateOrUpdateFromTemplate memClient emptyWorld testTemplate = (Inr r1, w1)" by blast
  from CreateOrUpdateFromTemplate_idempotent
    [OF memClient_frame memClient_readYourWrites al res]
  obtain r2 w2 where "CreateOrUpdateFromTemplate memClient w1 testTemplate = (Inr r2, w2)"
    "calls w2 = calls w1 @ [CallGet testKey]"
    "GetHash (heap w1) r1 = ''be082e37''" "GetHash (heap w2) r2 = ''be082e37''"
    "length (filter isWrite (calls w1)) = 1"
    by (auto simp: testTemplate_hash lf key ew)
  with res al memClient_frame memClient_readYourWrites show ?thesis by blast
qed

lemma first_call_leaves_convergedWorld:
  "remote (snd (CreateOrUpdateFromTemplate memClient emptyWorld testTemplate))
     = remote convergedWorld"
  by (simp add: CreateOrUpdateFromTemplate_def testTemplate_hash[unfolded testTemplate_def]
      DeepCopyObject_def cGet_def cCreate_def memClient_def memGet_def memCreate_def lookup_def
      StoreHash_def emptyWorld_def convergedWorld_def emptyHeap_def ObjectKeyFromObject_def
      GetAnnotations_def Let_def testTemplate_def)

text \<open>
  Claim C1 as stated asks for exactly one write on the first of two calls, for every
  template and store. On a store that already holds the object with the template's
  fingerprint, the first call reads once and writes nothing.
\<close>

theorem first_of_two_calls_on_converged_store_writes_nothing:
  "calls (snd (CreateOrUpdateFromTemplate memClient convergedWorld testTemplate)) = [CallGet testKey]
   \<and> length (filter isWrite
        (calls (snd (CreateOrUpdateFromTemplate memClient convergedWorld testTemplate)))) = 0"
  by (simp add: CreateOrUpdateFromTemplate_def testTemplate_hash[unfolded testTemplate_def]
      DeepCopyObject_def cGet_def memClient_def memGet_def lookup_def GetHash_def AnnotationKey_def
      convergedWorld_def emptyHeap_def ObjectKeyFromObject_def GetAnnotations_def
      Let_def testTemplate_def testKey_def)

subsection \<open>What the fingerprint depends on\<close>






subsection \<open>The template is left alone\<close>

text \<open>
  Claim C9. \<open>CreateOrUpdateFromTemplate\<close> does not change the template: the struct is
  passed by value to the copy, and the annotation map the template refers to, like
  every map allocated before the call, has the same content after the call, whether
  the call succeeds or fails. The fingerprint is stamped on the map of the deep copy
  or of the fetched object. (The client is assumed to write no map but that of the
  object handed to it.)
\<close>

theorem CreateOrUpdateFromTemplate_leaves_template:
  assumes "clientFrame c" and "allocated (heap w) template"
  shows "GetAnnotations (heap (snd (CreateOrUpdateFromTemplate c w template))) template
           = GetAnnotations (heap w) template
       \<and> (\<forall>a < nextAddr (heap w).
            cells (heap (snd (CreateOrUpdateFromTemplate c w template))) a = cells (heap w) a)"
proof -
  obtain r w' where res: "CreateOrUpdateFromTemplate c w template = (r, w')" by fastforce
  from CreateOrUpdateFromTemplate_keeps[OF assms(1) res]
  obtain obj where "keeps (heap w) (heap w') obj" ..
  with assms(2) res show ?thesis
    by (auto simp: keeps_def allocated_def GetAnnotations_def split: option.splits)
qed

text \<open>
  Without the copy the stamp would reach the template: \<open>StoreHash\<close> on the template
  itself writes the map it refers to.
\<close>

lemma StoreHash_writes_shared_map:
  "GetAnnotations (snd (StoreHash annotatedHeap annotatedTemplate ''be082e37'')) annotatedTemplate
     = Some [(''owner'', ''ops''), (AnnotationKey, ''be082e37'')]"
  by (simp add: StoreHash_def annotatedHeap_def annotatedTemplate_def GetAnnotations_def
      AnnotationKey_def)

theorem CreateOrUpdateFromTemplate_leaves_template_witness:
  "clientFrame memClient \<and> allocated (heap annotatedWorld) annotatedTemplate
   \<and> GetAnnotations (heap (snd (CreateOrUpdateFromTemplate memClient annotatedWorld annotatedTemplate)))
        annotatedTemplate = Some [(''owner'', ''ops'')]
   \<and> (\<exists>r. fst (CreateOrUpdateFromTemplate memClient annotatedWorld annotatedTemplate) = Inr r)"
proof -
  have al: "allocated (heap annotatedWorld) annotatedTemplate"
    by (simp add: allocated_def annotatedWorld_def annotatedHeap_def annotatedTemplate_def)
  have g: "GetAnnotations (heap annotatedWorld) annotatedTemplate = Some [(''owner'', ''ops'')]"
    by (simp add: GetAnnotations_def annotatedWorld_def annotatedHeap_def annotatedTemplate_def)
  have ok: "\<exists>r. fst (CreateOrUpdateFromTemplate memClient annotatedWorld annotatedTemplate) = Inr r"
    by (simp add: CreateOrUpdateFromTemplate_def DeepCopyObject_def
      cGet_def cCreate_def memClient_def memGet_def memCreate_def lookup_def
      StoreHash_def annotatedWorld_def annotatedHeap_def annotatedTemplate_def
      ObjectKeyFromObject_def GetAnnotations_def Let_def testTemplate_def)
  from CreateOrUpdateFromTemplate_leaves_template[OF memClient_frame al] g al memClient_frame ok
  show ?thesis by simp
qed

subsection \<open>The creation path\<close>

text \<open>
  Claim C8. When the first read fails: if the error is not "not found" it is surfaced,
  wrapped, and nothing is written. If it is "not found", the object sent to create is
  the copy of the template with the template's fingerprint as its annotation; after a
  successful create the object is read once more under the same key, and the call
  returns the fetched copy, or the object as create left it when that read reports
  "not found", or the wrapped error of that read otherwise.
\<close>

theorem CreateOrUpdateFromTemplate_creation_path:
  assumes dc: "DeepCopyObject (heap w) template = (obj, h1)"
    and g1: "clientGet c h1 (remote w) (ObjectKeyFromObject template) obj = (Inl err, h2, s2)"
    and sh: "StoreHash h2 obj (HashObject (heap w) template) = (obj2, h3)"
    and cr: "IsNotFound err \<Longrightarrow> clientCreate c h3 s2 obj2 = (Inr obj3, h4, s4)"
    and g2: "IsNotFound err \<Longrightarrow>
             clientGet c h4 s4 (ObjectKeyFromObject template) obj3 = (r, h5, s5)"
  shows "GetHash h3 obj2 = HashObject (heap w) template
       \<and> ObjectKeyFromObject obj2 = ObjectKeyFromObject template
       \<and> CreateOrUpdateFromTemplate c w template =
           (if IsNotFound err then
              ((case r of
                  Inr obj4 \<Rightarrow> Inr obj4
                | Inl e \<Rightarrow> if IsNotFound e then Inr obj3
                           else Inl (wrapError ''failed to get object'' e)),
               \<lparr>heap = h5, remote = s5,
                calls = calls w @ [CallGet (ObjectKeyFromObject template),
                                   CallCreate obj2 (GetAnnotations h3 obj2),
                                   CallGet (ObjectKeyFromObject template)]\<rparr>)
            else
              (Inl (wrapError ''failed to get object'' err),
               \<lparr>heap = h2, remote = s2,
                calls = calls w @ [CallGet (ObjectKeyFromObject template)]\<rparr>))"
proof -
  have key: "ObjectKeyFromObject obj = ObjectKeyFromObject template"
    using key_DeepCopyObject[OF dc] .
  have k2: "ObjectKeyFromObject obj2 = ObjectKeyFromObject template"
    using key_StoreHash[OF sh] key by simp
  have "CreateOrUpdateFromTemplate c w template =
           (if IsNotFound err then
              ((case r of
                  Inr obj4 \<Rightarrow> Inr obj4
                | Inl e \<Rightarrow> if IsNotFound e then Inr obj3
                           else Inl (wrapError ''failed to get object'' e)),
               \<lparr>heap = h5, remote = s5,
                calls = calls w @ [CallGet (ObjectKeyFromObject template),
                                   CallCreate obj2 (GetAnnotations h3 obj2),
                                   CallGet (ObjectKeyFromObject template)]\<rparr>)
            else
              (Inl (wrapError ''failed to get object'' err),
               \<lparr>heap = h2, remote = s2,
                calls = calls w @ [CallGet (ObjectKeyFromObject template)]\<rparr>))"
  proof (cases "IsNotFound err")
    case True
    with dc g1 sh cr[OF True] g2[OF True] key show ?thesis
      by (simp add: CreateOrUpdateFromTemplate_def cGet_def cCreate_def Let_def
          split: sum.splits)
  next
    case False
    with dc g1 key show ?thesis
      by (simp add: CreateOrUpdateFromTemplate_def cGet_def Let_def)
  qed
  with GetHash_StoreHash[OF sh] k2 show ?thesis by simp
qed

theorem CreateOrUpdateFromTemplate_creation_path_witness:
  "(\<exists>obj2 h3 obj3 h4 s4 obj4 h5 s5.
     DeepCopyObject (heap emptyWorld) testTemplate = (testTemplate, emptyHeap)
   \<and> clientGet memClient emptyHeap (remote emptyWorld) testKey testTemplate
       = (Inl (StatusError StatusReasonNotFound), emptyHeap, [])
   \<and> StoreHash emptyHeap testTemplate ''be082e37'' = (obj2, h3)
   \<and> clientCreate memClient h3 [] obj2 = (Inr obj3, h4, s4)
   \<and> clientGet memClient h4 s4 testKey obj3 = (Inr obj4, h5, s5)
   \<and> GetHash h3 obj2 = ''be082e37''
   \<and> CreateOrUpdateFromTemplate memClient emptyWorld testTemplate =
       (Inr obj4, \<lparr>heap = h5, remote = s5,
                   calls = [CallGet testKey, CallCreate obj2 (GetAnnotations h3 obj2),
                            CallGet testKey]\<rparr>))
   \<and> clientGet brokenClient emptyHeap (remote emptyWorld) testKey testTemplate
       = (Inl (StatusError StatusReasonInternalError), emptyHeap, [])
   \<and> CreateOrUpdateFromTemplate brokenClient emptyWorld testTemplate =
       (Inl (wrapError ''failed to get object'' (StatusError StatusReasonInternalError)),
        \<lparr>heap = emptyHeap, remote = [], calls = [CallGet testKey]\<rparr>)"
proof -
  have key: "ObjectKeyFromObject testTemplate = testKey"
    by (simp add: ObjectKeyFromObject_def testTemplate_def testKey_def)
  have ew: "heap emptyWorld = emptyHeap" "remote emptyWorld = []" "calls emptyWorld = []"
    by (simp_all add: emptyWorld_def)
  have dc: "DeepCopyObject (heap emptyWorld) testTemplate = (testTemplate, emptyHeap)"
    by (simp add: DeepCopyObject_def ew testTemplate_def)
  have g1: "clientGet memClient emptyHeap (remote emptyWorld) (ObjectKeyFromObject testTemplate)
              testTemplate = (Inl (StatusError StatusReasonNotFound), emptyHeap, [])"
    by (simp add: memClient_def memGet_def lookup_def ew)
  obtain obj2 h3 where
    sh: "StoreHash emptyHeap testTemplate (HashObject (heap emptyWorld) testTemplate) = (obj2, h3)"
    by fastforce
  obtain obj3 h4 s4 where cr: "clientCreate memClient h3 [] obj2 = (Inr obj3, h4, s4)"
    by (simp add: memClient_def memCreate_def lookup_def Let_def)
  have "memHolds s4 testKey (GetHash h3 obj2)"
    using ryw_create[OF memClient_readYourWrites cr] key_StoreHash[OF sh] key by simp
  from ryw_get_succeeds[OF memClient_readYourWrites this]
  obtain obj4 h5 s5 where
    g2: "clientGet memClient h4 s4 (ObjectKeyFromObject testTemplate) obj3 = (Inr obj4, h5, s5)"
    unfolding key by blast
  have created: "\<exists>obj2 h3 obj3 h4 s4 obj4 h5 s5.
     DeepCopyObject (heap emptyWorld) testTemplate = (testTemplate, emptyHeap)
   \<and> clientGet memClient emptyHeap (remote emptyWorld) testKey testTemplate
       = (Inl (StatusError StatusReasonNotFound), emptyHeap, [])
   \<and> StoreHash emptyHeap testTemplate ''be082e37'' = (obj2, h3)
   \<and> clientCreate memClient h3 [] obj2 = (Inr obj3, h4, s4)
   \<and> clientGet memClient h4 s4 testKey obj3 = (Inr obj4, h5, s5)
   \<and> GetHash h3 obj2 = ''be082e37''
   \<and> CreateOrUpdateFromTemplate memClient emptyWorld testTemplate =
       (Inr obj4, \<lparr>heap = h5, remote = s5,
                   calls = [CallGet testKey, CallCreate obj2 (GetAnnotations h3 obj2),
                            CallGet testKey]\<rparr>)"
    using CreateOrUpdateFromTemplate_creation_path[OF dc g1 sh cr g2] dc g1 sh cr g2
    by (simp add: key ew testTemplate_hash)
  have b1: "clientGet brokenClient emptyHeap (remote emptyWorld) (ObjectKeyFromObject testTemplate)
              testTemplate = (Inl (StatusError StatusReasonInternalError), emptyHeap, [])"
    by (simp add: brokenClient_def ew)
  obtain obj2' h3' where
    sh': "StoreHash emptyHeap testTemplate (HashObject (heap emptyWorld) testTemplate) = (obj2', h3')"
    by fastforce
  have failed: "CreateOrUpdateFromTemplate brokenClient emptyWorld testTemplate =
       (Inl (wrapError ''failed to get object'' (StatusError StatusReasonInternalError)),
        \<lparr>heap = emptyHeap, remote = [], calls = [CallGet testKey]\<rparr>)"
    using CreateOrUpdateFromTemplate_creation_path [OF dc b1 sh']
    by (simp add: key ew)
  from created b1 failed show ?thesis by (simp add: key)
qed

subsection \<open>Status updates and the generic create-or-update\<close>



text \<open>
  Claim C3 asks for one read after the write on both branches of \<open>CreateOrUpdate\<close>.
  On a store without the key, the calls are the first read and the create, and the
  function returns; on a store that holds the object, they are read, update, read.
\<close>

theorem CreateOrUpdate_create_branch_returns_without_refetch:
  "CreateOrUpdate memClient emptyWorld testKey blankObject None
     = (None, testTemplate\<lparr>objResourceVersion := ''1''\<rparr>,
        \<lparr>heap = emptyHeap, remote = [(testTemplate\<lparr>objResourceVersion := ''1''\<rparr>, None)],
         calls = [CallGet testKey, CallCreate testTemplate None]\<rparr>)
   \<and> map isGet (calls (snd (snd (CreateOrUpdate memClient convergedWorld testKey blankObject None))))
     = [True, False, True]"
  by (simp add: CreateOrUpdate_def cGet_def cCreate_def cUpdate_def memClient_def memGet_def
      memCreate_def memUpdate_def lookup_def replace_def emptyWorld_def convergedWorld_def
      emptyHeap_def blankObject_def testTemplate_def testKey_def ObjectKeyFromObject_def
      GetAnnotations_def Let_def)

end
